theory Spec2Isabelle
  imports Complex_Main
begin

section \<open>Values shared by both exporters\<close>

text \<open>
  The repository holds two programs with the same collector shape: \<^verbatim>\<open>main.go\<close>, which
  probes Binance inside every scrape and keeps no state, and a second \<^verbatim>\<open>package main\<close>
  (\<^verbatim>\<open>part_000\<close>), which stores the last observation in the collector and can refresh it
  from a scheduled task (flag \<^verbatim>\<open>auto-scrape\<close>). Names of \<^verbatim>\<open>main.go\<close> that clash with the
  second program carry the suffix \<open>_main\<close>.

  A Go \<^verbatim>\<open>float64\<close> is only stored, compared with the constant 0 and emitted; no arithmetic
  is done on it. \<open>Finite q\<close> stands for the finite value \<open>q\<close> (both signed zeros are
  \<open>Finite 0\<close>, as Go's \<^verbatim>\<open>==\<close> identifies them).
\<close>

datatype float64 = Finite rat | PosInf | NegInf | NaN

text \<open>The two \<^verbatim>\<open>*NumError\<close> kinds of \<^verbatim>\<open>strconv\<close>.\<close>

datatype num_error = ErrSyntax | ErrRange

record request =
  Method :: string
  URL :: string

text \<open>\<^verbatim>\<open>http.Header\<close> is \<^verbatim>\<open>map[string][]string\<close>.\<close>

type_synonym header = "string \<rightharpoonup> string list"

record response =
  StatusCode :: int
  Header :: header

text \<open>\<^verbatim>\<open>prometheus.Desc\<close> and a constant metric built from it.\<close>

record desc =
  fqName :: string
  helpText :: string

datatype value_type = CounterValue | GaugeValue | UntypedValue

record metric =
  metric_desc :: desc
  valType :: value_type
  val :: float64

text \<open>
  What a call does besides returning: a line written by \<^verbatim>\<open>log\<close>, an outbound request
  handed to \<^verbatim>\<open>client.Do\<close>, a metric sent on the channel \<^verbatim>\<open>ch\<close>, the message of a
  panic that nothing recovers. A call yields the effects in the order they happen, and
  either the value it returns or the status with which the process ended (1 after
  \<^verbatim>\<open>log.Fatal\<close>, 2 after a panic, the status \<^verbatim>\<open>flag.Parse\<close> chose).
\<close>

datatype io = Log string | HttpDo request | Send metric | Panic string

datatype exit = ExitStatus int

type_synonym 'a outcome = "io list \<times> (exit + 'a)"

text \<open>
  The standard library and the network, as a call sees them: \<^verbatim>\<open>http.NewRequest\<close>
  (\<open>Inl\<close> is its error), \<^verbatim>\<open>client.Do\<close> (\<open>Inl\<close> is its error, \<open>Inr\<close> the response it
  returns), \<^verbatim>\<open>strconv.ParseFloat(s, 64)\<close> with both components of its result, and the
  text of \<^verbatim>\<open>time.Now()\<close>. How \<^verbatim>\<open>client.Do\<close> comes to its result from what the transport
  delivers is \<open>client_Do\<close> below.
\<close>

record env =
  NewRequest :: "string \<Rightarrow> string \<Rightarrow> string + request"
  Do :: "request \<Rightarrow> string + response"
  ParseFloat :: "string \<Rightarrow> float64 \<times> num_error option"
  Now :: string

subsection \<open>\<^verbatim>\<open>Header.Get\<close>\<close>

text \<open>
  \<^verbatim>\<open>Header.Get\<close> looks a key up under its canonical MIME form and returns the first
  value stored there, or the empty string. The transport stores the headers of a response
  under canonical keys, which is what makes the lookup case-insensitive. A key with a
  byte that is not a header field byte is left as it is.
\<close>

definition toUpper :: "char \<Rightarrow> char" where
  "toUpper c =
     (case map_of (zip ''abcdefghijklmnopqrstuvwxyz'' ''ABCDEFGHIJKLMNOPQRSTUVWXYZ'') c of
        Some u \<Rightarrow> u | None \<Rightarrow> c)"

definition toLower :: "char \<Rightarrow> char" where
  "toLower c =
     (case map_of (zip ''ABCDEFGHIJKLMNOPQRSTUVWXYZ'' ''abcdefghijklmnopqrstuvwxyz'') c of
        Some l \<Rightarrow> l | None \<Rightarrow> c)"

definition validHeaderFieldByte :: "char \<Rightarrow> bool" where
  "validHeaderFieldByte c =
     (c \<in> set (''abcdefghijklmnopqrstuvwxyz'' @ ''ABCDEFGHIJKLMNOPQRSTUVWXYZ'' @
               ''0123456789'' @ ''!#$%&*+-.^_`|~'' @ [CHR 0x27]))"

text \<open>First letter upper case and upper case after each dash, lower case elsewhere.\<close>

fun canonicalize :: "bool \<Rightarrow> string \<Rightarrow> string" where
  "canonicalize upper [] = []"
| "canonicalize upper (c # cs) =
     (let c' = (if upper then toUpper c else toLower c)
      in c' # canonicalize (c' = CHR ''-'') cs)"

definition CanonicalMIMEHeaderKey :: "string \<Rightarrow> string" where
  "CanonicalMIMEHeaderKey s =
     (if list_all validHeaderFieldByte s then canonicalize True s else s)"

definition Get :: "header \<Rightarrow> string \<Rightarrow> string" where
  "Get h key =
     (case h (CanonicalMIMEHeaderKey key) of
        None \<Rightarrow> []
      | Some [] \<Rightarrow> []
      | Some (v # _) \<Rightarrow> v)"

subsection \<open>\<^verbatim>\<open>client.Do\<close> over a transport\<close>





subsection \<open>Descriptors and metrics\<close>

definition namespace :: string where
  "namespace = ''binance''"

definition BuildFQName :: "string \<Rightarrow> string \<Rightarrow> string \<Rightarrow> string" where
  "BuildFQName ns subsystem name =
     (if name = [] then []
      else if ns \<noteq> [] \<and> subsystem \<noteq> [] then ns @ ''_'' @ subsystem @ ''_'' @ name
      else if ns \<noteq> [] then ns @ ''_'' @ name
      else if subsystem \<noteq> [] then subsystem @ ''_'' @ name
      else name)"

definition NewDesc :: "string \<Rightarrow> string \<Rightarrow> desc" where
  "NewDesc fq h = \<lparr>fqName = fq, helpText = h\<rparr>"

definition MustNewConstMetric :: "desc \<Rightarrow> value_type \<Rightarrow> float64 \<Rightarrow> metric" where
  "MustNewConstMetric d t v = \<lparr>metric_desc = d, valType = t, val = v\<rparr>"

text \<open>
  \<^verbatim>\<open>MustNewConstMetric\<close> panics for a descriptor that carries an error or expects
  labels; the three descriptors of the exporters have valid names and no labels, so the
  constructor is modelled as total.
\<close>

text \<open>The metrics a call sent on the channel, in order, as (name, value) pairs.\<close>

fun sent :: "io list \<Rightarrow> (string \<times> float64) list" where
  "sent [] = []"
| "sent (Send m # t) = (fqName (metric_desc m), val m) # sent t"
| "sent (_ # t) = sent t"

text \<open>The outbound requests a call made.\<close>

fun probes :: "io list \<Rightarrow> request list" where
  "probes [] = []"
| "probes (HttpDo r # t) = r # probes t"
| "probes (_ # t) = probes t"

section \<open>The stateless exporter (\<^verbatim>\<open>main.go\<close>)\<close>

definition cheapRequest_main :: string where
  "cheapRequest_main = ''/api/v3/klines?symbol=BTCUSDT&interval=1m''"

record WeightCollector_main =
  up :: desc
  weightUsed :: desc
  weightUsedMinute :: desc
  binanceEndpoint :: string

definition NewCollector_main :: "string \<Rightarrow> WeightCollector_main" where
  "NewCollector_main ep =
     \<lparr>up = NewDesc (BuildFQName namespace [] ''up'')
             ''Was the last Binance API query successful.'',
      weightUsed = NewDesc (BuildFQName namespace [] ''weight_used'')
             ''Weight used (MBX-USED-WEIGHT).'',
      weightUsedMinute = NewDesc (BuildFQName namespace [] ''weight_used_1m'')
             ''Weight used per minmute (MBX-USED-WEIGHT-1M).'',
      binanceEndpoint = ep\<rparr>"

definition HitBinanceRestApisAndUpdateMetrics ::
    "env \<Rightarrow> 'a WeightCollector_main_scheme \<Rightarrow> unit outcome" where
  "HitBinanceRestApisAndUpdateMetrics e c =
     (case NewRequest e ''GET'' (binanceEndpoint c @ cheapRequest_main) of
        Inl err \<Rightarrow> ([Log err], Inl (ExitStatus 1))
      | Inr req \<Rightarrow>
          (case Do e req of
             Inl err \<Rightarrow>
               ([HttpDo req, Log err,
                 Send (MustNewConstMetric (up c) GaugeValue (Finite 0))], Inr ())
           | Inr resp \<Rightarrow>
               (let weight_used = fst (ParseFloat e (Get (Header resp) ''x-mbx-used-weight''));
                    weight_used_1m =
                      fst (ParseFloat e (Get (Header resp) ''x-mbx-used-weight-1m''))
                in ([HttpDo req,
                     Send (MustNewConstMetric (up c) GaugeValue (Finite 1)),
                     Send (MustNewConstMetric (weightUsed c) GaugeValue weight_used),
                     Send (MustNewConstMetric (weightUsedMinute c) GaugeValue weight_used_1m),
                     Log ''Endpoint scraped''], Inr ()))))"

definition Collect_main :: "env \<Rightarrow> 'a WeightCollector_main_scheme \<Rightarrow> unit outcome" where
  "Collect_main e c = HitBinanceRestApisAndUpdateMetrics e c"

section \<open>The caching exporter (\<^verbatim>\<open>part_000\<close>)\<close>

definition endpoint :: string where
  "endpoint = ''https://api.binance.com''"

definition cheapRequest :: string where
  "cheapRequest = ''/api/v3/ping''"

text \<open>The struct of \<^verbatim>\<open>main.go\<close> with the two cached fields added.\<close>

record WeightCollector = WeightCollector_main +
  lastWeight :: float64
  isUp :: float64

definition NewCollector :: "string \<Rightarrow> WeightCollector" where
  "NewCollector ep =
     \<lparr>up = NewDesc (BuildFQName namespace [] ''up'')
             ''Was the last Binance API query successful.'',
      weightUsed = NewDesc (BuildFQName namespace [] ''weight_used'')
             ''Weight used (MBX-USED-WEIGHT).'',
      weightUsedMinute = NewDesc (BuildFQName namespace [] ''weight_used_1m'')
             ''Weight used per minmute (MBX-USED-WEIGHT-1M).'',
      binanceEndpoint = ep,
      lastWeight = Finite 0,
      isUp = Finite 0\<rparr>"

definition RequestWeight :: "env \<Rightarrow> WeightCollector \<Rightarrow> WeightCollector outcome" where
  "RequestWeight e c =
     (let l0 = Log (''Weight requested at '' @ Now e) in
      case NewRequest e ''GET'' (binanceEndpoint c @ cheapRequest) of
        Inl err \<Rightarrow> ([l0, Log err], Inl (ExitStatus 1))
      | Inr req \<Rightarrow>
          (case Do e req of
             Inl err \<Rightarrow> ([l0, HttpDo req, Log err], Inr (c\<lparr>isUp := Finite 0\<rparr>))
           | Inr resp \<Rightarrow>
               ([l0, HttpDo req],
                Inr (c\<lparr>isUp := Finite 1,
                       lastWeight :=
                         fst (ParseFloat e (Get (Header resp) ''x-mbx-used-weight-1m''))\<rparr>))))"

definition UpdateMetrics :: "WeightCollector \<Rightarrow> io list" where
  "UpdateMetrics c =
     (if isUp c = Finite 0
      then [Send (MustNewConstMetric (up c) GaugeValue (Finite 0))]
      else [Send (MustNewConstMetric (up c) GaugeValue (Finite 1)),
            Send (MustNewConstMetric (weightUsed c) GaugeValue (lastWeight c)),
            Send (MustNewConstMetric (weightUsedMinute c) GaugeValue (lastWeight c)),
            Log ''Endpoint scraped''])"

text \<open>\<open>autoScrape\<close> is the value of the flag \<^verbatim>\<open>auto-scrape\<close>.\<close>

definition Collect :: "bool \<Rightarrow> env \<Rightarrow> WeightCollector \<Rightarrow> WeightCollector outcome" where
  "Collect autoScrape e c =
     (if \<not> autoScrape
      then (case RequestWeight e c of
              (t, Inl x) \<Rightarrow> (t, Inl x)
            | (t, Inr c') \<Rightarrow> (t @ UpdateMetrics c', Inr c'))
      else (UpdateMetrics c, Inr c))"

section \<open>The running process\<close>

text \<open>
  What \<^verbatim>\<open>main\<close> meets before it serves: the error of \<^verbatim>\<open>godotenv.Load\<close>, if any; the
  outcome of \<^verbatim>\<open>flag.Parse\<close>, which either ends the process with a status (2 on a bad
  flag, 0 on \<^verbatim>\<open>-h\<close>) or yields the flag values; the environment; the error of
  \<^verbatim>\<open>ScheduleAtFixedRate\<close>, if any; \<^verbatim>\<open>http.Handle\<close> and \<^verbatim>\<open>http.HandleFunc\<close>, which panic on
  a pattern the default mux refuses, given the patterns registered so far (\<open>Some\<close> is the
  panic); and \<^verbatim>\<open>http.ListenAndServe\<close>, which either fails at once for the address (the
  listener cannot bind) or serves. \<^verbatim>\<open>prometheus.MustRegister\<close> does not panic for these
  collectors: their three descriptors are valid and clash with nothing registered.
\<close>

record flags =
  web_listen_address :: string
  web_telemetry_path :: string
  auto_scrape :: bool

record host =
  godotenv_Load :: "string option"
  flag_Parse :: "int + flags"
  Getenv :: "string \<Rightarrow> string"
  ScheduleAtFixedRate :: "string option"
  Handle :: "string list \<Rightarrow> string \<Rightarrow> string option"
  ListenAndServe :: "string \<Rightarrow> string option"

text \<open>
  While it serves, every scrape of the metrics path makes the registry call \<open>Collect\<close>. A
  process is followed over a finite list of events, taken one at a time (a scrape and a
  tick that overlap in time are not modelled); \<open>Inr\<close> in its outcome says that it is
  still serving after them, \<open>Inl\<close> that it has exited.
\<close>

fun serve_main :: "WeightCollector_main \<Rightarrow> env list \<Rightarrow> unit outcome" where
  "serve_main c [] = ([], Inr ())"
| "serve_main c (e # es) =
     (case Collect_main e c of
        (t, Inl x) \<Rightarrow> (t, Inl x)
      | (t, Inr _) \<Rightarrow> (case serve_main c es of (t', r) \<Rightarrow> (t @ t', r)))"

text \<open>\<^verbatim>\<open>main\<close> of \<^verbatim>\<open>main.go\<close>, which has no flag \<^verbatim>\<open>auto-scrape\<close>.\<close>

definition main_main :: "host \<Rightarrow> env list \<Rightarrow> unit outcome" where
  "main_main h scrapes =
     (let t0 = (case godotenv_Load h of
                  Some _ \<Rightarrow> [Log ''Error loading .env file, assume env variables are set.'']
                | None \<Rightarrow> [])
      in case flag_Parse h of
           Inl status \<Rightarrow> (t0, Inl (ExitStatus status))
         | Inr f \<Rightarrow>
             (let exporter = NewCollector_main (Getenv h ''BINANCE_ENDPOINT'')
              in case Handle h [] (web_telemetry_path f) of
                   Some p \<Rightarrow> (t0 @ [Panic p], Inl (ExitStatus 2))
                 | None \<Rightarrow>
                     (case Handle h [web_telemetry_path f] ''/'' of
                        Some p \<Rightarrow> (t0 @ [Panic p], Inl (ExitStatus 2))
                      | None \<Rightarrow>
                          (case ListenAndServe h (web_listen_address f) of
                             Some err \<Rightarrow> (t0 @ [Log err], Inl (ExitStatus 1))
                           | None \<Rightarrow>
                               (case serve_main exporter scrapes of
                                  (t, r) \<Rightarrow> (t0 @ t, r))))))"

text \<open>
  In the caching exporter an event is a scrape or a run of the task given to
  \<^verbatim>\<open>ScheduleAtFixedRate\<close>, whose body is \<^verbatim>\<open>exporter.RequestWeight()\<close>; each comes with
  the library and network it meets.
\<close>

datatype event = Scrape env | Tick env

fun is_Scrape :: "event \<Rightarrow> bool" where
  "is_Scrape (Scrape _) = True"
| "is_Scrape (Tick _) = False"

fun step :: "bool \<Rightarrow> WeightCollector \<Rightarrow> event \<Rightarrow> WeightCollector outcome" where
  "step autoScrape c (Scrape e) = Collect autoScrape e c"
| "step autoScrape c (Tick e) = RequestWeight e c"

fun serve :: "bool \<Rightarrow> WeightCollector \<Rightarrow> event list \<Rightarrow> WeightCollector outcome" where
  "serve autoScrape c [] = ([], Inr c)"
| "serve autoScrape c (ev # evs) =
     (case step autoScrape c ev of
        (t, Inl x) \<Rightarrow> (t, Inl x)
      | (t, Inr c') \<Rightarrow> (case serve autoScrape c' evs of (t', r) \<Rightarrow> (t @ t', r)))"

text \<open>
  \<^verbatim>\<open>main\<close> of the caching exporter. The task is scheduled only under \<^verbatim>\<open>auto-scrape\<close>
  and runs only if \<^verbatim>\<open>ScheduleAtFixedRate\<close> returned no error, so ticks are dropped
  otherwise.
\<close>

definition main :: "host \<Rightarrow> event list \<Rightarrow> WeightCollector outcome" where
  "main h evs =
     (case flag_Parse h of
        Inl status \<Rightarrow> ([], Inl (ExitStatus status))
      | Inr f \<Rightarrow>
          (let exporter = NewCollector endpoint;
               scheduled = (auto_scrape f \<and> ScheduleAtFixedRate h = None);
               t0 = (if scheduled then [Log ''Started schedule.''] else [])
           in case Handle h [] (web_telemetry_path f) of
                Some p \<Rightarrow> (t0 @ [Panic p], Inl (ExitStatus 2))
              | None \<Rightarrow>
                  (case Handle h [web_telemetry_path f] ''/'' of
                     Some p \<Rightarrow> (t0 @ [Panic p], Inl (ExitStatus 2))
                   | None \<Rightarrow>
                       (case ListenAndServe h (web_listen_address f) of
                          Some err \<Rightarrow> (t0 @ [Log err], Inl (ExitStatus 1))
                        | None \<Rightarrow>
                            (case serve (auto_scrape f) exporter
                                    (if scheduled then evs else filter is_Scrape evs) of
                               (t, r) \<Rightarrow> (t0 @ t, r))))))"

section \<open>Notions used to state the claims\<close>

text \<open>
  A rate-limit header is absent or malformed when the response has no entry under the
  canonical form of the key, or \<^verbatim>\<open>ParseFloat\<close> reports a syntax error on what
  \<^verbatim>\<open>Header.Get\<close> returns for it.
\<close>

definition absent_or_malformed :: "env \<Rightarrow> header \<Rightarrow> string \<Rightarrow> bool" where
  "absent_or_malformed e h key =
     (h (CanonicalMIMEHeaderKey key) = None \<or>
      snd (ParseFloat e (Get h key)) = Some ErrSyntax)"

text \<open>
  An event of the caching exporter makes the process build a request that
  \<^verbatim>\<open>http.NewRequest\<close> refuses: a scrape does so only when it probes (no auto-scrape), a
  tick always probes. The exporter of \<^verbatim>\<open>main\<close> is built for the constant \<open>endpoint\<close>.
\<close>

fun refused_build :: "bool \<Rightarrow> event \<Rightarrow> bool" where
  "refused_build autoScrape (Scrape e) =
     (\<not> autoScrape \<and> isl (NewRequest e ''GET'' (endpoint @ cheapRequest)))"
| "refused_build autoScrape (Tick e) = isl (NewRequest e ''GET'' (endpoint @ cheapRequest))"

text \<open>
  Startup succeeded with flag values \<open>f\<close>: the flags parsed, both patterns were
  registered and the listener serves.
\<close>

definition started :: "host \<Rightarrow> flags \<Rightarrow> bool" where
  "started h f =
     (flag_Parse h = Inr f \<and> Handle h [] (web_telemetry_path f) = None \<and>
      Handle h [web_telemetry_path f] ''/'' = None \<and>
      ListenAndServe h (web_listen_address f) = None)"


section \<open>Example surroundings\<close>

text \<open>
  Stand-ins for the library, used only to evaluate the program on concrete inputs.
  \<^verbatim>\<open>net/url\<close> refuses a URL that holds an ASCII control byte (\<^verbatim>\<open>b < ' ' || b == 0x7f\<close>)
  and \<^verbatim>\<open>http.NewRequest\<close> returns that error (the message is shortened to the part
  \<^verbatim>\<open>net/url\<close> writes); the URLs both exporters build for the public endpoint are accepted.
  The stand-in for \<^verbatim>\<open>strconv.ParseFloat\<close> is a table: \<^verbatim>\<open>5\<close>, \<^verbatim>\<open>7\<close> and \<^verbatim>\<open>42\<close> give their
  exact value, and \<^verbatim>\<open>1e999\<close>, which is well-formed and beyond the largest float64, gives
  \<^verbatim>\<open>(+Inf, ErrRange)\<close>. Every string outside the table is answered \<^verbatim>\<open>(0, ErrSyntax)\<close>, which
  is Go's answer for the empty string and for \<^verbatim>\<open>abc\<close>, the only such inputs the examples
  give it.
\<close>

definition stringContainsCTLByte :: "string \<Rightarrow> bool" where
  "stringContainsCTLByte s = list_ex (\<lambda>b. of_char b < (32::nat) \<or> b = CHR 0x7F) s"

definition example_NewRequest :: "string \<Rightarrow> string \<Rightarrow> string + request" where
  "example_NewRequest m u =
     (if stringContainsCTLByte u then Inl ''net/url: invalid control character in URL''
      else Inr \<lparr>Method = m, URL = u\<rparr>)"

definition example_ParseFloat :: "string \<Rightarrow> float64 \<times> num_error option" where
  "example_ParseFloat s =
     (case map_of [(''5'', (Finite 5, None)), (''7'', (Finite 7, None)),
                   (''42'', (Finite 42, None)), (''1e999'', (PosInf, Some ErrRange))] s of
        Some r \<Rightarrow> r
      | None \<Rightarrow> (Finite 0, Some ErrSyntax))"

definition example_env :: "string + response \<Rightarrow> env" where
  "example_env r =
     \<lparr>NewRequest = example_NewRequest, Do = (\<lambda>_. r), ParseFloat = example_ParseFloat,
      Now = ''2022-01-01 00:00:58 +0000 UTC''\<rparr>"

definition example_response :: "int \<Rightarrow> (string \<times> string list) list \<Rightarrow> response" where
  "example_response code hs = \<lparr>StatusCode = code, Header = map_of hs\<rparr>"

text \<open>
  Concrete surroundings: a refused connection; a 200 response carrying both rate-limit
  headers with different values; a response whose one-minute header is well-formed but
  out of range; a response with no legacy header whose one-minute header is not a number;
  a collector of the caching exporter that was up with weight 42; and the requests both
  exporters build for the public endpoint.
\<close>

definition example_down :: env where
  "example_down = example_env (Inl ''dial tcp: connect: connection refused'')"

definition example_up :: env where
  "example_up =
     example_env (Inr (example_response 200
       [(''X-Mbx-Used-Weight'', [''5'']), (''X-Mbx-Used-Weight-1m'', [''7''])]))"

definition example_huge :: env where
  "example_huge =
     example_env (Inr (example_response 200
       [(''X-Mbx-Used-Weight'', [''5'']), (''X-Mbx-Used-Weight-1m'', [''1e999''])]))"

definition example_cached :: WeightCollector where
  "example_cached = (NewCollector endpoint)\<lparr>lastWeight := Finite 42, isUp := Finite 1\<rparr>"

definition example_request :: request where
  "example_request = \<lparr>Method = ''GET'', URL = ''https://api.binance.com/api/v3/ping''\<rparr>"

definition example_request_main :: request where
  "example_request_main =
     \<lparr>Method = ''GET'',
      URL = ''https://api.binance.com/api/v3/klines?symbol=BTCUSDT&interval=1m''\<rparr>"

definition example_garbled :: env where
  "example_garbled =
     example_env (Inr (example_response 200 [(''X-Mbx-Used-Weight-1m'', [''abc''])]))"




text \<open>
  A host on which startup succeeds unless the listener fails: the default flags but for
  \<^verbatim>\<open>auto-scrape\<close>, a mux that refuses the empty pattern and a pattern registered before,
  and \<^verbatim>\<open>BINANCE_ENDPOINT\<close> as given.
\<close>

definition example_Handle :: "string list \<Rightarrow> string \<Rightarrow> string option" where
  "example_Handle registered pattern =
     (if pattern = [] then Some ''http: invalid pattern''
      else if pattern \<in> set registered
      then Some (''http: multiple registrations for '' @ pattern)
      else None)"

definition example_host :: "string \<Rightarrow> bool \<Rightarrow> string option \<Rightarrow> host" where
  "example_host ep auto listen_err =
     \<lparr>godotenv_Load = None,
      flag_Parse = Inr \<lparr>web_listen_address = '':9141'', web_telemetry_path = ''/metrics'',
                         auto_scrape = auto\<rparr>,
      Getenv = (\<lambda>name. if name = ''BINANCE_ENDPOINT'' then ep else []),
      ScheduleAtFixedRate = None,
      Handle = example_Handle,
      ListenAndServe = (\<lambda>_. listen_err)\<rparr>"

section \<open>Facts about the model\<close>

subsection \<open>Header keys, descriptors, traces\<close>

lemma canonical_legacy_key:
  "CanonicalMIMEHeaderKey ''x-mbx-used-weight'' = ''X-Mbx-Used-Weight''"
  by (simp add: CanonicalMIMEHeaderKey_def validHeaderFieldByte_def toUpper_def toLower_def
      Let_def)

lemma canonical_minute_key:
  "CanonicalMIMEHeaderKey ''x-mbx-used-weight-1m'' = ''X-Mbx-Used-Weight-1m''"
  by (simp add: CanonicalMIMEHeaderKey_def validHeaderFieldByte_def toUpper_def toLower_def
      Let_def)

lemma Get_legacy:
  "Get h ''x-mbx-used-weight'' =
     (case h ''X-Mbx-Used-Weight'' of None \<Rightarrow> [] | Some [] \<Rightarrow> [] | Some (v # _) \<Rightarrow> v)"
  by (simp add: Get_def canonical_legacy_key)

lemma Get_minute:
  "Get h ''x-mbx-used-weight-1m'' =
     (case h ''X-Mbx-Used-Weight-1m'' of None \<Rightarrow> [] | Some [] \<Rightarrow> [] | Some (v # _) \<Rightarrow> v)"
  by (simp add: Get_def canonical_minute_key)

lemma NewCollector_names:
  "fqName (up (NewCollector ep)) = ''binance_up''"
  "fqName (weightUsed (NewCollector ep)) = ''binance_weight_used''"
  "fqName (weightUsedMinute (NewCollector ep)) = ''binance_weight_used_1m''"
  "binanceEndpoint (NewCollector ep) = ep"
  "isUp (NewCollector ep) = Finite 0"
  "lastWeight (NewCollector ep) = Finite 0"
  by (simp_all add: NewCollector_def NewDesc_def BuildFQName_def namespace_def)

lemma NewCollector_main_names:
  "fqName (up (NewCollector_main ep)) = ''binance_up''"
  "fqName (weightUsed (NewCollector_main ep)) = ''binance_weight_used''"
  "fqName (weightUsedMinute (NewCollector_main ep)) = ''binance_weight_used_1m''"
  "binanceEndpoint (NewCollector_main ep) = ep"
  by (simp_all add: NewCollector_main_def NewDesc_def BuildFQName_def namespace_def)

lemma sent_append: "sent (t @ u) = sent t @ sent u"
  by (induction t rule: sent.induct) simp_all

lemma probes_append: "probes (t @ u) = probes t @ probes u"
  by (induction t rule: probes.induct) simp_all

lemma sent_UpdateMetrics:
  "sent (UpdateMetrics c) =
     (if isUp c = Finite 0 then [(fqName (up c), Finite 0)]
      else [(fqName (up c), Finite 1), (fqName (weightUsed c), lastWeight c),
            (fqName (weightUsedMinute c), lastWeight c)])"
  by (simp add: UpdateMetrics_def MustNewConstMetric_def)

lemma probes_UpdateMetrics: "probes (UpdateMetrics c) = []"
  by (simp add: UpdateMetrics_def)

lemma RequestWeight_down:
  assumes "NewRequest e ''GET'' (binanceEndpoint c @ cheapRequest) = Inr req"
    and "Do e req = Inl err"
  shows "RequestWeight e c =
     ([Log (''Weight requested at '' @ Now e), HttpDo req, Log err],
      Inr (c\<lparr>isUp := Finite 0\<rparr>))"
  using assms by (simp add: RequestWeight_def)

lemma RequestWeight_up:
  assumes "NewRequest e ''GET'' (binanceEndpoint c @ cheapRequest) = Inr req"
    and "Do e req = Inr resp"
  shows "RequestWeight e c =
     ([Log (''Weight requested at '' @ Now e), HttpDo req],
      Inr (c\<lparr>isUp := Finite 1,
             lastWeight := fst (ParseFloat e (Get (Header resp) ''x-mbx-used-weight-1m''))\<rparr>))"
  using assms by (simp add: RequestWeight_def)

lemma RequestWeight_fatal:
  assumes "NewRequest e ''GET'' (binanceEndpoint c @ cheapRequest) = Inl err"
  shows "RequestWeight e c =
     ([Log (''Weight requested at '' @ Now e), Log err], Inl (ExitStatus 1))"
  using assms by (simp add: RequestWeight_def)

lemma Collect_async: "Collect True e c = (UpdateMetrics c, Inr c)"
  by (simp add: Collect_def)

lemma Collect_sync:
  "Collect False e c =
     (fst (RequestWeight e c) @
        (case snd (RequestWeight e c) of Inl _ \<Rightarrow> [] | Inr c' \<Rightarrow> UpdateMetrics c'),
      snd (RequestWeight e c))"
  by (cases "RequestWeight e c") (auto simp: Collect_def split: sum.splits)

lemma serve_scrapes_async:
  "serve True c (map Scrape es) = (concat (map (\<lambda>_. UpdateMetrics c) es), Inr c)"
  by (induction es) (simp_all add: Collect_async)

subsection \<open>The stateless probe, case by case\<close>

lemma Hit_up:
  assumes "NewRequest e ''GET'' (binanceEndpoint c0 @ cheapRequest_main) = Inr req0"
    and "Do e req0 = Inr resp"
  shows "HitBinanceRestApisAndUpdateMetrics e c0 =
     ([HttpDo req0,
       Send (MustNewConstMetric (up c0) GaugeValue (Finite 1)),
       Send (MustNewConstMetric (weightUsed c0) GaugeValue
         (fst (ParseFloat e (Get (Header resp) ''x-mbx-used-weight'')))),
       Send (MustNewConstMetric (weightUsedMinute c0) GaugeValue
         (fst (ParseFloat e (Get (Header resp) ''x-mbx-used-weight-1m'')))),
       Log ''Endpoint scraped''], Inr ())"
  using assms by (simp add: HitBinanceRestApisAndUpdateMetrics_def)

lemma Hit_down:
  assumes "NewRequest e ''GET'' (binanceEndpoint c0 @ cheapRequest_main) = Inr req0"
    and "Do e req0 = Inl err"
  shows "HitBinanceRestApisAndUpdateMetrics e c0 =
     ([HttpDo req0, Log err, Send (MustNewConstMetric (up c0) GaugeValue (Finite 0))],
      Inr ())"
  using assms by (simp add: HitBinanceRestApisAndUpdateMetrics_def)

lemma Hit_fatal:
  assumes "NewRequest e ''GET'' (binanceEndpoint c0 @ cheapRequest_main) = Inl err"
  shows "HitBinanceRestApisAndUpdateMetrics e c0 = ([Log err], Inl (ExitStatus 1))"
  using assms by (simp add: HitBinanceRestApisAndUpdateMetrics_def)

lemma sent_Hit_up:
  assumes "NewRequest e ''GET'' (binanceEndpoint c0 @ cheapRequest_main) = Inr req0"
    and "Do e req0 = Inr resp"
  shows "sent (fst (Collect_main e c0)) =
     [(fqName (up c0), Finite 1),
      (fqName (weightUsed c0), fst (ParseFloat e (Get (Header resp) ''x-mbx-used-weight''))),
      (fqName (weightUsedMinute c0),
       fst (ParseFloat e (Get (Header resp) ''x-mbx-used-weight-1m'')))]"
  by (simp add: Collect_main_def Hit_up [OF assms] MustNewConstMetric_def)

lemma sent_Collect_sync_up:
  assumes "NewRequest e ''GET'' (binanceEndpoint c @ cheapRequest) = Inr req"
    and "Do e req = Inr resp"
  shows "sent (fst (Collect False e c)) =
     [(fqName (up c), Finite 1),
      (fqName (weightUsed c), fst (ParseFloat e (Get (Header resp) ''x-mbx-used-weight-1m''))),
      (fqName (weightUsedMinute c),
       fst (ParseFloat e (Get (Header resp) ''x-mbx-used-weight-1m'')))]"
  by (simp add: Collect_sync RequestWeight_up [OF assms] sent_append sent_UpdateMetrics)

lemma sent_tick_scrape_up:
  assumes "NewRequest e ''GET'' (binanceEndpoint c @ cheapRequest) = Inr req"
    and "Do e req = Inr resp"
  shows "sent (fst (serve True c [Tick e, Scrape e'])) =
     [(fqName (up c), Finite 1),
      (fqName (weightUsed c), fst (ParseFloat e (Get (Header resp) ''x-mbx-used-weight-1m''))),
      (fqName (weightUsedMinute c),
       fst (ParseFloat e (Get (Header resp) ''x-mbx-used-weight-1m'')))]"
  by (simp add: Collect_async RequestWeight_up [OF assms] sent_append sent_UpdateMetrics)

subsection \<open>What never reaches the collector\<close>



lemma legacy_header_never_read:
  "RequestWeight
     (e\<lparr>Do := \<lambda>r. map_sum id
        (\<lambda>x. x\<lparr>Header := (Header x)(''X-Mbx-Used-Weight'' := v)\<rparr>) (Do e r)\<rparr>) c =
   RequestWeight e c"
proof (cases "NewRequest e ''GET'' (binanceEndpoint c @ cheapRequest)")
  case (Inl err)
  then show ?thesis by (simp add: RequestWeight_def)
next
  case (Inr req)
  then show ?thesis
    by (cases "Do e req") (simp_all add: RequestWeight_def Get_minute)
qed

lemma stored_weight_after_probe:
  "map_sum id lastWeight (snd (RequestWeight e c)) =
     (case NewRequest e ''GET'' (binanceEndpoint c @ cheapRequest) of
        Inl _ \<Rightarrow> Inl (ExitStatus 1)
      | Inr req \<Rightarrow>
          (case Do e req of
             Inl _ \<Rightarrow> Inr (lastWeight c)
           | Inr resp \<Rightarrow>
               Inr (fst (ParseFloat e (Get (Header resp) ''x-mbx-used-weight-1m'')))))"
proof (cases "NewRequest e ''GET'' (binanceEndpoint c @ cheapRequest)")
  case (Inl err)
  then show ?thesis by (simp add: RequestWeight_def)
next
  case (Inr req)
  then show ?thesis
    by (cases "Do e req") (simp_all add: RequestWeight_def)
qed

lemma absent_or_malformed_zero:
  assumes "\<And>s. snd (ParseFloat e s) = Some ErrSyntax \<Longrightarrow> fst (ParseFloat e s) = Finite 0"
    and "snd (ParseFloat e []) = Some ErrSyntax"
    and "absent_or_malformed e h key"
  shows "fst (ParseFloat e (Get h key)) = Finite 0"
proof (cases "h (CanonicalMIMEHeaderKey key)")
  case None
  then have "Get h key = []" by (simp add: Get_def)
  with assms(1,2) show ?thesis by simp
next
  case (Some vs)
  with assms(3) have "snd (ParseFloat e (Get h key)) = Some ErrSyntax"
    by (simp add: absent_or_malformed_def)
  with assms(1) show ?thesis by simp
qed

subsection \<open>When the process exits\<close>

lemma Hit_exits_iff:
  "isl (snd (HitBinanceRestApisAndUpdateMetrics e c0)) =
     isl (NewRequest e ''GET'' (binanceEndpoint c0 @ cheapRequest_main))"
proof (cases "NewRequest e ''GET'' (binanceEndpoint c0 @ cheapRequest_main)")
  case (Inl err)
  then show ?thesis by (simp add: Hit_fatal)
next
  case (Inr req)
  then show ?thesis
    by (cases "Do e req") (simp_all add: Hit_up Hit_down)
qed

lemma RequestWeight_exits_iff:
  "isl (snd (RequestWeight e c)) =
     isl (NewRequest e ''GET'' (binanceEndpoint c @ cheapRequest))"
proof (cases "NewRequest e ''GET'' (binanceEndpoint c @ cheapRequest)")
  case (Inl err)
  then show ?thesis by (simp add: RequestWeight_fatal)
next
  case (Inr req)
  then show ?thesis
    by (cases "Do e req") (simp_all add: RequestWeight_up RequestWeight_down)
qed

lemma RequestWeight_endpoint:
  "snd (RequestWeight e c) = Inr c' \<Longrightarrow> binanceEndpoint c' = binanceEndpoint c"
  by (auto simp: RequestWeight_def Let_def split: sum.splits)

lemma step_endpoint:
  "snd (step a c ev) = Inr c' \<Longrightarrow> binanceEndpoint c' = binanceEndpoint c"
proof (cases ev)
  case (Scrape e)
  assume "snd (step a c ev) = Inr c'"
  with Scrape show ?thesis
    using RequestWeight_endpoint [of e c c']
    by (cases a) (simp_all add: Collect_async Collect_sync)
next
  case (Tick e)
  assume "snd (step a c ev) = Inr c'"
  with Tick show ?thesis
    using RequestWeight_endpoint [of e c c'] by simp
qed

lemma step_exits_iff:
  "binanceEndpoint c = endpoint \<Longrightarrow> isl (snd (step a c ev)) = refused_build a ev"
proof (cases ev)
  case (Scrape e)
  assume "binanceEndpoint c = endpoint"
  with Scrape show ?thesis
    using RequestWeight_exits_iff [of e c]
    by (cases a) (simp_all add: Collect_async Collect_sync)
next
  case (Tick e)
  assume "binanceEndpoint c = endpoint"
  with Tick show ?thesis
    using RequestWeight_exits_iff [of e c] by simp
qed

lemma snd_serve_main_Cons:
  "snd (serve_main c0 (e # es)) =
     (case snd (Collect_main e c0) of Inl x \<Rightarrow> Inl x | Inr _ \<Rightarrow> snd (serve_main c0 es))"
  by (simp split: prod.splits sum.splits)

lemma snd_serve_Cons:
  "snd (serve a c (ev # evs)) =
     (case snd (step a c ev) of Inl x \<Rightarrow> Inl x | Inr c' \<Rightarrow> snd (serve a c' evs))"
  by (simp split: prod.splits sum.splits)

lemma serve_main_exits_iff:
  "isl (snd (serve_main c0 es)) =
     list_ex (\<lambda>e. isl (NewRequest e ''GET'' (binanceEndpoint c0 @ cheapRequest_main))) es"
proof (induction es)
  case Nil
  show ?case by simp
next
  case (Cons e es)
  have x: "isl (snd (Collect_main e c0)) =
      isl (NewRequest e ''GET'' (binanceEndpoint c0 @ cheapRequest_main))"
    by (simp add: Collect_main_def Hit_exits_iff)
  show ?case
    unfolding snd_serve_main_Cons using x Cons.IH
    by (cases "snd (Collect_main e c0)") simp_all
qed

lemma serve_exits_iff:
  "binanceEndpoint c = endpoint \<Longrightarrow> isl (snd (serve a c evs)) = list_ex (refused_build a) evs"
proof (induction evs arbitrary: c)
  case Nil
  show ?case by simp
next
  case (Cons ev evs)
  note x = step_exits_iff [OF Cons.prems, of a ev]
  show ?case
  proof (cases "snd (step a c ev)")
    case (Inl y)
    with x show ?thesis unfolding snd_serve_Cons by simp
  next
    case (Inr c')
    then have "binanceEndpoint c' = endpoint"
      using step_endpoint [of a c ev c'] Cons.prems by simp
    from Cons.IH [OF this] x Inr show ?thesis unfolding snd_serve_Cons by simp
  qed
qed

lemma snd_main_main_started:
  "started h f \<Longrightarrow>
   snd (main_main h es) =
     snd (serve_main (NewCollector_main (Getenv h ''BINANCE_ENDPOINT'')) es)"
  by (simp add: main_main_def started_def Let_def split: prod.splits option.splits)

lemma snd_main_started:
  "started h f \<Longrightarrow>
   snd (main h evs) =
     snd (serve (auto_scrape f) (NewCollector endpoint)
       (if auto_scrape f \<and> ScheduleAtFixedRate h = None then evs else filter is_Scrape evs))"
  by (simp add: main_def started_def Let_def split: prod.splits option.splits)

lemma fst_main_started:
  "started h f \<Longrightarrow>
   sent (fst (main h evs)) =
     sent (fst (serve (auto_scrape f) (NewCollector endpoint)
       (if auto_scrape f \<and> ScheduleAtFixedRate h = None then evs else filter is_Scrape evs)))"
  by (simp add: main_def started_def Let_def sent_append split: prod.splits option.splits)

lemma main_main_started_exits_iff:
  "started h f \<Longrightarrow>
   isl (snd (main_main h es)) =
     list_ex (\<lambda>e. isl (NewRequest e ''GET''
       (Getenv h ''BINANCE_ENDPOINT'' @ cheapRequest_main))) es"
  by (simp add: snd_main_main_started serve_main_exits_iff NewCollector_main_names)

lemma main_started_exits_iff:
  "started h f \<Longrightarrow>
   isl (snd (main h evs)) =
     list_ex (refused_build (auto_scrape f))
       (if auto_scrape f \<and> ScheduleAtFixedRate h = None then evs else filter is_Scrape evs)"
  by (simp only: snd_main_started serve_exits_iff NewCollector_names)

lemma listener_failure_exits:
  assumes "flag_Parse h = Inr f"
    and "Handle h [] (web_telemetry_path f) = None"
    and "Handle h [web_telemetry_path f] ''/'' = None"
    and "ListenAndServe h (web_listen_address f) = Some err"
  shows "snd (main_main h es) = Inl (ExitStatus 1)"
    and "snd (main h evs) = Inl (ExitStatus 1)"
  using assms by (simp_all add: main_main_def main_def Let_def)

subsection \<open>What \<^verbatim>\<open>client.Do\<close> returns\<close>




subsection \<open>The example surroundings evaluated\<close>

lemma example_builds:
  "NewRequest (example_env r) ''GET'' (endpoint @ cheapRequest) = Inr example_request"
  "NewRequest (example_env r) ''GET'' (endpoint @ cheapRequest_main) = Inr example_request_main"
  by (simp_all add: example_env_def example_NewRequest_def stringContainsCTLByte_def
      endpoint_def cheapRequest_def cheapRequest_main_def example_request_def
      example_request_main_def)

lemma example_Do: "Do (example_env r) req = r"
  by (simp add: example_env_def)

lemma example_cached_fields:
  "fqName (up example_cached) = ''binance_up''"
  "fqName (weightUsed example_cached) = ''binance_weight_used''"
  "fqName (weightUsedMinute example_cached) = ''binance_weight_used_1m''"
  "binanceEndpoint example_cached = endpoint"
  "isUp example_cached = Finite 1"
  "lastWeight example_cached = Finite 42"
  by (simp_all add: example_cached_def NewCollector_names)

lemma example_parses:  "example_ParseFloat ''5'' = (Finite 5, None)"
  "example_ParseFloat ''7'' = (Finite 7, None)"
  "example_ParseFloat ''42'' = (Finite 42, None)"
  "example_ParseFloat ''1e999'' = (PosInf, Some ErrRange)"
  "example_ParseFloat [] = (Finite 0, Some ErrSyntax)"
  by (simp_all add: example_ParseFloat_def)

lemma example_ParseFloat_env:
  "ParseFloat (example_env r) = example_ParseFloat"
  "ParseFloat example_up = example_ParseFloat"
  "ParseFloat example_down = example_ParseFloat"
  "ParseFloat example_huge = example_ParseFloat"
  by (simp_all add: example_env_def example_up_def example_down_def example_huge_def)

lemma example_syntax_zero:
  "snd (example_ParseFloat s) = Some ErrSyntax \<Longrightarrow> fst (example_ParseFloat s) = Finite 0"
  by (auto simp: example_ParseFloat_def split: if_splits)

lemma example_up_response:
  "Do example_up req = Inr (example_response 200
       [(''X-Mbx-Used-Weight'', [''5'']), (''X-Mbx-Used-Weight-1m'', [''7''])])"
  by (simp add: example_up_def example_Do)

lemma example_up_headers:
  "Header (example_response 200
       [(''X-Mbx-Used-Weight'', [''5'']), (''X-Mbx-Used-Weight-1m'', [''7''])])
     ''X-Mbx-Used-Weight'' = Some [''5'']"
  "Header (example_response 200
       [(''X-Mbx-Used-Weight'', [''5'']), (''X-Mbx-Used-Weight-1m'', [''7''])])
     ''X-Mbx-Used-Weight-1m'' = Some [''7'']"
  by (simp_all add: example_response_def)

lemma example_huge_response:
  "Do example_huge req = Inr (example_response 200
       [(''X-Mbx-Used-Weight'', [''5'']), (''X-Mbx-Used-Weight-1m'', [''1e999''])])"
  by (simp add: example_huge_def example_Do)

lemma example_down_response:
  "Do example_down req = Inl ''dial tcp: connect: connection refused''"
  by (simp add: example_down_def example_Do)

lemma example_named_builds:
  "NewRequest example_up ''GET'' (endpoint @ cheapRequest) = Inr example_request"
  "NewRequest example_up ''GET'' (endpoint @ cheapRequest_main) = Inr example_request_main"
  "NewRequest example_down ''GET'' (endpoint @ cheapRequest) = Inr example_request"
  "NewRequest example_down ''GET'' (endpoint @ cheapRequest_main) = Inr example_request_main"
  "NewRequest example_huge ''GET'' (endpoint @ cheapRequest) = Inr example_request"
  "NewRequest example_huge ''GET'' (endpoint @ cheapRequest_main) = Inr example_request_main"
  by (simp_all add: example_up_def example_down_def example_huge_def example_builds)

lemma newline_is_refused:  "NewRequest (example_env r) ''GET'' ((endpoint @ [CHR 0x0A]) @ cheapRequest_main) =
     Inl ''net/url: invalid control character in URL''"
  by (simp add: example_env_def example_NewRequest_def stringContainsCTLByte_def
      endpoint_def cheapRequest_main_def)








lemma example_garbled_response:
  "Do example_garbled req =
     Inr (example_response 200 [(''X-Mbx-Used-Weight-1m'', [''abc''])])"
  by (simp add: example_garbled_def example_Do)

lemma example_garbled_fields:
  "NewRequest example_garbled ''GET'' (endpoint @ cheapRequest) = Inr example_request"
  "NewRequest example_garbled ''GET'' (endpoint @ cheapRequest_main) =
     Inr example_request_main"
  "ParseFloat example_garbled = example_ParseFloat"
  by (simp_all add: example_garbled_def example_builds example_ParseFloat_env)

lemma example_host_started:
  "started (example_host ep auto None)
     \<lparr>web_listen_address = '':9141'', web_telemetry_path = ''/metrics'', auto_scrape = auto\<rparr>"
  by (simp add: started_def example_host_def example_Handle_def)

lemma example_host_fields:
  "Getenv (example_host ep auto l) ''BINANCE_ENDPOINT'' = ep"
  "ScheduleAtFixedRate (example_host ep auto l) = None"
  "flag_Parse (example_host ep auto l) =
     Inr \<lparr>web_listen_address = '':9141'', web_telemetry_path = ''/metrics'',
          auto_scrape = auto\<rparr>"
  "Handle (example_host ep auto l) [] ''/metrics'' = None"
  "Handle (example_host ep auto l) [''/metrics''] ''/'' = None"
  "ListenAndServe (example_host ep auto l) a = l"
  by (simp_all add: example_host_def example_Handle_def)

section \<open>The claims\<close>

text \<open>
  C1, as stated, fails in the caching exporter. A response carries
  \<^verbatim>\<open>x-mbx-used-weight = 5\<close> and \<^verbatim>\<open>x-mbx-used-weight-1m = 7\<close>; the value parsed from
  \<^verbatim>\<open>x-mbx-used-weight\<close> is 5, yet the scrape that probes and then publishes sends
  \<open>weight_used = 7\<close>.
\<close>

theorem cached_weight_used_from_minute_header:
  "fst (ParseFloat example_up
     (Get (Header (example_response 200
        [(''X-Mbx-Used-Weight'', [''5'']), (''X-Mbx-Used-Weight-1m'', [''7''])]))
        ''x-mbx-used-weight'')) = Finite 5 \<and>
   sent (fst (Collect False example_up (NewCollector endpoint))) =
     [(''binance_up'', Finite 1), (''binance_weight_used'', Finite 7),
      (''binance_weight_used_1m'', Finite 7)]"
proof -
  have b: "NewRequest example_up ''GET'' (binanceEndpoint (NewCollector endpoint) @ cheapRequest)
      = Inr example_request"
    by (simp add: example_up_def example_builds NewCollector_names)
  show ?thesis
    by (simp add: sent_Collect_sync_up [OF b example_up_response] NewCollector_names
        Get_legacy Get_minute example_up_headers example_ParseFloat_env example_parses)
qed

text \<open>
  C1, amended. Each exporter on its own. In the stateless exporter, after a successful
  probe whose response carries \<^verbatim>\<open>x-mbx-used-weight\<close> with first value \<open>w\<close> and
  \<^verbatim>\<open>x-mbx-used-weight-1m\<close> with first value \<open>m\<close>, the scrape sends up = 1, \<open>weight_used\<close>
  parsed from \<open>w\<close> and \<open>weight_used_1m\<close> parsed from \<open>m\<close>. In the caching exporter, after
  a successful probe whose response carries \<^verbatim>\<open>x-mbx-used-weight-1m\<close> with first value
  \<open>m\<close>, whatever else it carries, the scrape sends up = 1 and both weight gauges with the
  value parsed from \<open>m\<close>, whether the probe runs inside the scrape or in a tick before it.
\<close>

theorem successful_probe_gauges:
  "(\<forall>req0 resp0 w ws m ms.
      NewRequest e0 ''GET'' (binanceEndpoint c0 @ cheapRequest_main) = Inr req0 \<longrightarrow>
      Do e0 req0 = Inr resp0 \<longrightarrow>
      Header resp0 ''X-Mbx-Used-Weight'' = Some (w # ws) \<longrightarrow>
      Header resp0 ''X-Mbx-Used-Weight-1m'' = Some (m # ms) \<longrightarrow>
      sent (fst (Collect_main e0 c0)) =
        [(fqName (up c0), Finite 1),
         (fqName (weightUsed c0), fst (ParseFloat e0 w)),
         (fqName (weightUsedMinute c0), fst (ParseFloat e0 m))]) \<and>
   (\<forall>req resp m ms.
      NewRequest e ''GET'' (binanceEndpoint c @ cheapRequest) = Inr req \<longrightarrow>
      Do e req = Inr resp \<longrightarrow>
      Header resp ''X-Mbx-Used-Weight-1m'' = Some (m # ms) \<longrightarrow>
      sent (fst (Collect False e c)) =
        [(fqName (up c), Finite 1),
         (fqName (weightUsed c), fst (ParseFloat e m)),
         (fqName (weightUsedMinute c), fst (ParseFloat e m))] \<and>
      (\<forall>e'. sent (fst (serve True c [Tick e, Scrape e'])) =
        [(fqName (up c), Finite 1),
         (fqName (weightUsed c), fst (ParseFloat e m)),
         (fqName (weightUsedMinute c), fst (ParseFloat e m))]))"
proof (intro conjI allI impI)
  fix req0 resp0 w ws m ms
  assume b: "NewRequest e0 ''GET'' (binanceEndpoint c0 @ cheapRequest_main) = Inr req0"
    and d: "Do e0 req0 = Inr resp0"
    and hw: "Header resp0 ''X-Mbx-Used-Weight'' = Some (w # ws)"
    and hm: "Header resp0 ''X-Mbx-Used-Weight-1m'' = Some (m # ms)"
  from hw hm have "Get (Header resp0) ''x-mbx-used-weight'' = w"
    and "Get (Header resp0) ''x-mbx-used-weight-1m'' = m"
    by (simp_all add: Get_legacy Get_minute)
  with sent_Hit_up [OF b d]
  show "sent (fst (Collect_main e0 c0)) =
      [(fqName (up c0), Finite 1),
       (fqName (weightUsed c0), fst (ParseFloat e0 w)),
       (fqName (weightUsedMinute c0), fst (ParseFloat e0 m))]"
    by simp
next
  fix req resp m ms
  assume b: "NewRequest e ''GET'' (binanceEndpoint c @ cheapRequest) = Inr req"
    and d: "Do e req = Inr resp"
    and hm: "Header resp ''X-Mbx-Used-Weight-1m'' = Some (m # ms)"
  from hm have g: "Get (Header resp) ''x-mbx-used-weight-1m'' = m"
    by (simp add: Get_minute)
  from sent_Collect_sync_up [OF b d] g
  show "sent (fst (Collect False e c)) =
      [(fqName (up c), Finite 1),
       (fqName (weightUsed c), fst (ParseFloat e m)),
       (fqName (weightUsedMinute c), fst (ParseFloat e m))]"
    by simp
  fix e'
  from sent_tick_scrape_up [OF b d, of e'] g
  show "sent (fst (serve True c [Tick e, Scrape e'])) =
      [(fqName (up c), Finite 1),
       (fqName (weightUsed c), fst (ParseFloat e m)),
       (fqName (weightUsedMinute c), fst (ParseFloat e m))]"
    by simp
qed

theorem successful_probe_gauges_witness:
  "Do example_up example_request_main = Inr (example_response 200
       [(''X-Mbx-Used-Weight'', [''5'']), (''X-Mbx-Used-Weight-1m'', [''7''])]) \<and>
   sent (fst (Collect_main example_up (NewCollector_main endpoint))) =
     [(''binance_up'', Finite 1), (''binance_weight_used'', Finite 5),
      (''binance_weight_used_1m'', Finite 7)] \<and>
   sent (fst (Collect False example_up example_cached)) =
     [(''binance_up'', Finite 1), (''binance_weight_used'', Finite 7),
      (''binance_weight_used_1m'', Finite 7)] \<and>
   sent (fst (serve True example_cached [Tick example_up, Scrape example_down])) =
     [(''binance_up'', Finite 1), (''binance_weight_used'', Finite 7),
      (''binance_weight_used_1m'', Finite 7)]"
proof -
  have b0: "NewRequest example_up ''GET''
      (binanceEndpoint (NewCollector_main endpoint) @ cheapRequest_main) =
      Inr example_request_main"
    by (simp add: example_named_builds NewCollector_main_names)
  have b: "NewRequest example_up ''GET'' (binanceEndpoint example_cached @ cheapRequest) =
      Inr example_request"
    by (simp add: example_named_builds example_cached_fields)
  note t = successful_probe_gauges [of example_up "NewCollector_main endpoint" example_up
      example_cached]
  have "sent (fst (Collect_main example_up (NewCollector_main endpoint))) =
      [(fqName (up (NewCollector_main endpoint)), Finite 1),
       (fqName (weightUsed (NewCollector_main endpoint)), fst (ParseFloat example_up ''5'')),
       (fqName (weightUsedMinute (NewCollector_main endpoint)),
        fst (ParseFloat example_up ''7''))]"
    using t b0 example_up_response [of example_request_main] example_up_headers by blast
  moreover have "sent (fst (Collect False example_up example_cached)) =
      [(fqName (up example_cached), Finite 1),
       (fqName (weightUsed example_cached), fst (ParseFloat example_up ''7'')),
       (fqName (weightUsedMinute example_cached), fst (ParseFloat example_up ''7''))]"
    using t b example_up_response [of example_request] example_up_headers by blast
  moreover
  have "sent (fst (serve True example_cached [Tick example_up, Scrape example_down])) =
      [(fqName (up example_cached), Finite 1),
       (fqName (weightUsed example_cached), fst (ParseFloat example_up ''7'')),
       (fqName (weightUsedMinute example_cached), fst (ParseFloat example_up ''7''))]"
    using t b example_up_response [of example_request] example_up_headers by blast
  ultimately show ?thesis
    using example_up_response [of example_request_main]
    by (simp only: example_cached_fields NewCollector_main_names example_ParseFloat_env
        example_parses fst_conv simp_thms)
qed

text \<open>
  C2. When the transport call of a probe fails, the scrape that follows sends the up
  gauge with value 0 and nothing else, whatever weight was cached. Each exporter on its
  own: the stateless exporter; the caching exporter when the scrape probes, and under
  auto-scrape when the tick's probe failed and a scrape comes next.
\<close>

theorem transport_failure_reports_down:
  "(\<forall>req0 err0.
      NewRequest e0 ''GET'' (binanceEndpoint c0 @ cheapRequest_main) = Inr req0 \<longrightarrow>
      Do e0 req0 = Inl err0 \<longrightarrow>
      sent (fst (Collect_main e0 c0)) = [(fqName (up c0), Finite 0)]) \<and>
   (\<forall>req err.
      NewRequest e ''GET'' (binanceEndpoint c @ cheapRequest) = Inr req \<longrightarrow>
      Do e req = Inl err \<longrightarrow>
      sent (fst (Collect False e c)) = [(fqName (up c), Finite 0)] \<and>
      (\<forall>e'. sent (fst (serve True c [Tick e, Scrape e'])) = [(fqName (up c), Finite 0)]))"
proof (intro conjI allI impI)
  fix req0 err0
  assume "NewRequest e0 ''GET'' (binanceEndpoint c0 @ cheapRequest_main) = Inr req0"
    and "Do e0 req0 = Inl err0"
  then show "sent (fst (Collect_main e0 c0)) = [(fqName (up c0), Finite 0)]"
    by (simp add: Collect_main_def Hit_down MustNewConstMetric_def)
next
  fix req err
  assume b: "NewRequest e ''GET'' (binanceEndpoint c @ cheapRequest) = Inr req"
    and d: "Do e req = Inl err"
  show "sent (fst (Collect False e c)) = [(fqName (up c), Finite 0)]"
    by (simp add: Collect_sync RequestWeight_down [OF b d] sent_append sent_UpdateMetrics)
  fix e'
  show "sent (fst (serve True c [Tick e, Scrape e'])) = [(fqName (up c), Finite 0)]"
    by (simp add: Collect_async RequestWeight_down [OF b d] sent_append sent_UpdateMetrics)
qed

theorem transport_failure_reports_down_witness:
  "NewRequest example_down ''GET'' (binanceEndpoint (NewCollector_main endpoint) @ cheapRequest_main)
     = Inr example_request_main \<and>
   Do example_down example_request_main = Inl ''dial tcp: connect: connection refused'' \<and>
   NewRequest example_down ''GET'' (binanceEndpoint example_cached @ cheapRequest) =
     Inr example_request \<and>
   Do example_down example_request = Inl ''dial tcp: connect: connection refused'' \<and>
   sent (fst (Collect_main example_down (NewCollector_main endpoint))) =
     [(''binance_up'', Finite 0)] \<and>
   sent (fst (Collect False example_down example_cached)) = [(''binance_up'', Finite 0)] \<and>
   sent (fst (serve True example_cached [Tick example_down, Scrape example_up])) =
     [(''binance_up'', Finite 0)]"
proof -
  have b0: "NewRequest example_down ''GET''
      (binanceEndpoint (NewCollector_main endpoint) @ cheapRequest_main) =
      Inr example_request_main"
    by (simp add: example_named_builds NewCollector_main_names)
  have b: "NewRequest example_down ''GET'' (binanceEndpoint example_cached @ cheapRequest) =
      Inr example_request"
    by (simp add: example_named_builds example_cached_fields)
  note t = transport_failure_reports_down [of example_down "NewCollector_main endpoint"
      example_down example_cached]
  have "sent (fst (Collect_main example_down (NewCollector_main endpoint))) =
      [(fqName (up (NewCollector_main endpoint)), Finite 0)]"
    using t b0 example_down_response [of example_request_main] by blast
  moreover have "sent (fst (Collect False example_down example_cached)) =
      [(fqName (up example_cached), Finite 0)]"
    using t b example_down_response [of example_request] by blast
  moreover
  have "sent (fst (serve True example_cached [Tick example_down, Scrape example_up])) =
      [(fqName (up example_cached), Finite 0)]"
    using t b example_down_response [of example_request] by blast
  ultimately show ?thesis
    using b0 b example_down_response
    by (simp only: example_cached_fields NewCollector_main_names simp_thms)
qed

text \<open>
  C3. In the caching exporter a probe whose transport call returns an error changes only
  \<open>isUp\<close>, which becomes 0: the collector afterwards is the collector before with that
  one field updated, so \<open>lastWeight\<close> is what it was. This holds for the probe of a
  scrape and for the probe of a scheduled task.
\<close>

theorem failed_probe_keeps_weight:
  assumes "NewRequest e ''GET'' (binanceEndpoint c @ cheapRequest) = Inr req"
    and "Do e req = Inl err"
  shows "snd (RequestWeight e c) = Inr (c\<lparr>isUp := Finite 0\<rparr>) \<and>
         snd (Collect False e c) = Inr (c\<lparr>isUp := Finite 0\<rparr>) \<and>
         snd (serve True c [Tick e]) = Inr (c\<lparr>isUp := Finite 0\<rparr>) \<and>
         lastWeight (c\<lparr>isUp := Finite 0\<rparr>) = lastWeight c"
  using RequestWeight_down [OF assms] by (simp add: Collect_sync)

theorem failed_probe_keeps_weight_witness:
  "NewRequest example_down ''GET'' (binanceEndpoint example_cached @ cheapRequest) =
     Inr example_request \<and>
   Do example_down example_request = Inl ''dial tcp: connect: connection refused'' \<and>
   snd (RequestWeight example_down example_cached) =
     Inr (example_cached\<lparr>isUp := Finite 0\<rparr>) \<and>
   lastWeight (example_cached\<lparr>isUp := Finite 0\<rparr>) = Finite 42"
proof -
  have b: "NewRequest example_down ''GET'' (binanceEndpoint example_cached @ cheapRequest) =
      Inr example_request"
    by (simp add: example_down_def example_builds example_cached_fields)
  have d: "Do example_down example_request = Inl ''dial tcp: connect: connection refused''"
    by (simp add: example_down_def example_Do)
  from failed_probe_keeps_weight [OF b d] b d show ?thesis
    by (simp add: example_cached_fields)
qed




text \<open>
  C5, as stated, fails: a failure to build the request ends the process. With
  \<^verbatim>\<open>BINANCE_ENDPOINT\<close> set to the public endpoint followed by a newline, \<^verbatim>\<open>http.NewRequest\<close>
  returns an error, \<^verbatim>\<open>log.Fatal\<close> runs, and the first scrape ends the process with status
  1 although startup succeeded and the upstream is healthy.
\<close>

theorem refused_request_ends_process:
  "started (example_host (endpoint @ [CHR 0x0A]) False None)
     \<lparr>web_listen_address = '':9141'', web_telemetry_path = ''/metrics'', auto_scrape = False\<rparr> \<and>
   NewRequest example_up ''GET'' ((endpoint @ [CHR 0x0A]) @ cheapRequest_main) =
     Inl ''net/url: invalid control character in URL'' \<and>
   Collect_main example_up (NewCollector_main (endpoint @ [CHR 0x0A])) =
     ([Log ''net/url: invalid control character in URL''], Inl (ExitStatus 1)) \<and>
   main_main (example_host (endpoint @ [CHR 0x0A]) False None) [example_up] =
     ([Log ''net/url: invalid control character in URL''], Inl (ExitStatus 1))"
proof -
  have r: "NewRequest example_up ''GET''
      (binanceEndpoint (NewCollector_main (endpoint @ [CHR 0x0A])) @ cheapRequest_main) =
      Inl ''net/url: invalid control character in URL''"
    by (simp only: NewCollector_main_names example_up_def newline_is_refused)
  have c: "Collect_main example_up (NewCollector_main (endpoint @ [CHR 0x0A])) =
      ([Log ''net/url: invalid control character in URL''], Inl (ExitStatus 1))"
    by (simp only: Collect_main_def Hit_fatal [OF r])
  have "main_main (example_host (endpoint @ [CHR 0x0A]) False None) [example_up] =
      ([Log ''net/url: invalid control character in URL''], Inl (ExitStatus 1))"
    by (simp add: main_main_def example_host_def example_Handle_def c)
  with c show ?thesis
    by (simp only: example_up_def newline_is_refused example_host_started simp_thms)
qed

text \<open>
  C5, amended. A failure in executing the upstream request is handled where it happens and
  never ends the process: the error is logged, the stateless scrape sends up = 0 and
  returns, the caching probe sets \<open>isUp = 0\<close> and returns. A failure in building the
  request is passed to \<^verbatim>\<open>log.Fatal\<close> and ends the process: a probe exits exactly when
  \<^verbatim>\<open>http.NewRequest\<close> returns an error. Startup errors such as a listener that cannot bind
  end the process with status 1; after a successful startup, events whose probes can all
  build their requests leave the process serving whatever the transport does, and a probe
  that cannot build its request ends it.
\<close>

theorem probe_failures_and_exit:
  "isl (snd (Collect_main e0 c0)) =
     isl (NewRequest e0 ''GET'' (binanceEndpoint c0 @ cheapRequest_main)) \<and>
   isl (snd (RequestWeight e c)) =
     isl (NewRequest e ''GET'' (binanceEndpoint c @ cheapRequest)) \<and>
   (\<forall>req err. NewRequest e0 ''GET'' (binanceEndpoint c0 @ cheapRequest_main) = Inr req \<longrightarrow>
      Do e0 req = Inl err \<longrightarrow>
      Collect_main e0 c0 =
        ([HttpDo req, Log err, Send (MustNewConstMetric (up c0) GaugeValue (Finite 0))],
         Inr ())) \<and>
   (\<forall>req err. NewRequest e ''GET'' (binanceEndpoint c @ cheapRequest) = Inr req \<longrightarrow>
      Do e req = Inl err \<longrightarrow>
      RequestWeight e c =
        ([Log (''Weight requested at '' @ Now e), HttpDo req, Log err],
         Inr (c\<lparr>isUp := Finite 0\<rparr>))) \<and>
   (\<forall>f. started h0 f \<longrightarrow>
      isl (snd (main_main h0 es)) =
        list_ex (\<lambda>e. isl (NewRequest e ''GET''
          (Getenv h0 ''BINANCE_ENDPOINT'' @ cheapRequest_main))) es) \<and>
   (\<forall>f. started h f \<longrightarrow>
      isl (snd (main h evs)) =
        list_ex (refused_build (auto_scrape f))
          (if auto_scrape f \<and> ScheduleAtFixedRate h = None then evs
           else filter is_Scrape evs)) \<and>
   (\<forall>f err. flag_Parse h1 = Inr f \<longrightarrow>
      Handle h1 [] (web_telemetry_path f) = None \<longrightarrow>
      Handle h1 [web_telemetry_path f] ''/'' = None \<longrightarrow>
      ListenAndServe h1 (web_listen_address f) = Some err \<longrightarrow>
      snd (main_main h1 es1) = Inl (ExitStatus 1) \<and>
      snd (main h1 evs1) = Inl (ExitStatus 1))"
proof (intro conjI allI impI)
  show "isl (snd (Collect_main e0 c0)) =
      isl (NewRequest e0 ''GET'' (binanceEndpoint c0 @ cheapRequest_main))"
    by (simp add: Collect_main_def Hit_exits_iff)
  show "isl (snd (RequestWeight e c)) =
      isl (NewRequest e ''GET'' (binanceEndpoint c @ cheapRequest))"
    by (rule RequestWeight_exits_iff)
next
  fix req err
  assume "NewRequest e0 ''GET'' (binanceEndpoint c0 @ cheapRequest_main) = Inr req"
    and "Do e0 req = Inl err"
  then show "Collect_main e0 c0 =
      ([HttpDo req, Log err, Send (MustNewConstMetric (up c0) GaugeValue (Finite 0))],
       Inr ())"
    by (simp add: Collect_main_def Hit_down)
next
  fix req err
  assume "NewRequest e ''GET'' (binanceEndpoint c @ cheapRequest) = Inr req"
    and "Do e req = Inl err"
  then show "RequestWeight e c =
      ([Log (''Weight requested at '' @ Now e), HttpDo req, Log err],
       Inr (c\<lparr>isUp := Finite 0\<rparr>))"
    by (rule RequestWeight_down)
next
  fix f
  assume "started h0 f"
  then show "isl (snd (main_main h0 es)) =
      list_ex (\<lambda>e. isl (NewRequest e ''GET''
        (Getenv h0 ''BINANCE_ENDPOINT'' @ cheapRequest_main))) es"
    by (rule main_main_started_exits_iff)
next
  fix f
  assume "started h f"
  then show "isl (snd (main h evs)) =
      list_ex (refused_build (auto_scrape f))
        (if auto_scrape f \<and> ScheduleAtFixedRate h = None then evs
         else filter is_Scrape evs)"
    by (rule main_started_exits_iff)
next
  fix f err
  assume a: "flag_Parse h1 = Inr f" "Handle h1 [] (web_telemetry_path f) = None"
    "Handle h1 [web_telemetry_path f] ''/'' = None"
    "ListenAndServe h1 (web_listen_address f) = Some err"
  show "snd (main_main h1 es1) = Inl (ExitStatus 1)"
    by (rule listener_failure_exits(1) [OF a])
  show "snd (main h1 evs1) = Inl (ExitStatus 1)"
    by (rule listener_failure_exits(2) [OF a])
qed

theorem probe_failures_and_exit_witness:
  "NewRequest example_down ''GET''
     (binanceEndpoint (NewCollector_main endpoint) @ cheapRequest_main) =
     Inr example_request_main \<and>
   Do example_down example_request_main = Inl ''dial tcp: connect: connection refused'' \<and>
   Collect_main example_down (NewCollector_main endpoint) =
     ([HttpDo example_request_main, Log ''dial tcp: connect: connection refused'',
       Send (MustNewConstMetric (up (NewCollector_main endpoint)) GaugeValue (Finite 0))],
      Inr ()) \<and>
   RequestWeight example_down example_cached =
     ([Log (''Weight requested at '' @ Now example_down), HttpDo example_request,
       Log ''dial tcp: connect: connection refused''],
      Inr (example_cached\<lparr>isUp := Finite 0\<rparr>)) \<and>
   \<not> isl (snd (main_main (example_host endpoint False None) [example_down, example_down])) \<and>
   \<not> isl (snd (main (example_host endpoint True None)
       [Tick example_down, Scrape example_down])) \<and>
   \<not> isl (snd (main (example_host endpoint False None)
       [Scrape example_down, Scrape example_down])) \<and>
   snd (main (example_host endpoint False
       (Some ''listen tcp :9141: bind: address already in use'')) []) = Inl (ExitStatus 1) \<and>
   snd (main_main (example_host endpoint False
       (Some ''listen tcp :9141: bind: address already in use'')) []) = Inl (ExitStatus 1)"
proof -
  let ?bound = "example_host endpoint False
      (Some ''listen tcp :9141: bind: address already in use'')"
  have b0: "NewRequest example_down ''GET''
      (binanceEndpoint (NewCollector_main endpoint) @ cheapRequest_main) =
      Inr example_request_main"
    by (simp add: example_named_builds NewCollector_main_names)
  have b: "NewRequest example_down ''GET'' (binanceEndpoint example_cached @ cheapRequest) =
      Inr example_request"
    by (simp add: example_named_builds example_cached_fields)
  note t = probe_failures_and_exit [of example_down "NewCollector_main endpoint" example_down
      example_cached]
  have "Collect_main example_down (NewCollector_main endpoint) =
      ([HttpDo example_request_main, Log ''dial tcp: connect: connection refused'',
        Send (MustNewConstMetric (up (NewCollector_main endpoint)) GaugeValue (Finite 0))],
       Inr ())"
    and "RequestWeight example_down example_cached =
      ([Log (''Weight requested at '' @ Now example_down), HttpDo example_request,
        Log ''dial tcp: connect: connection refused''],
       Inr (example_cached\<lparr>isUp := Finite 0\<rparr>))"
    using t [of "example_host endpoint False None" "[]" "example_host endpoint False None"
        "[]" ?bound "[]" "[]"] b0 b example_down_response
    by blast+
  moreover
  have "isl (snd (main_main (example_host endpoint False None) [example_down, example_down])) =
      list_ex (\<lambda>e. isl (NewRequest e ''GET''
        (Getenv (example_host endpoint False None) ''BINANCE_ENDPOINT'' @ cheapRequest_main)))
        [example_down, example_down]"
    using t [of "example_host endpoint False None" "[example_down, example_down]"
        "example_host endpoint False None" "[]" ?bound "[]" "[]"]
      example_host_started [of endpoint False]
    by blast
  then have "\<not> isl (snd (main_main (example_host endpoint False None)
      [example_down, example_down]))"
    by (simp add: example_named_builds example_host_fields)
  moreover
  have "isl (snd (main (example_host endpoint True None)
        [Tick example_down, Scrape example_down])) =
      list_ex (refused_build (auto_scrape
          \<lparr>web_listen_address = '':9141'', web_telemetry_path = ''/metrics'',
           auto_scrape = True\<rparr>))
        (if auto_scrape \<lparr>web_listen_address = '':9141'', web_telemetry_path = ''/metrics'',
              auto_scrape = True\<rparr> \<and>
            ScheduleAtFixedRate (example_host endpoint True None) = None
         then [Tick example_down, Scrape example_down]
         else filter is_Scrape [Tick example_down, Scrape example_down])"
    using t [of "example_host endpoint False None" "[]" "example_host endpoint True None"
        "[Tick example_down, Scrape example_down]" ?bound "[]" "[]"]
      example_host_started [of endpoint True]
    by blast
  then have "\<not> isl (snd (main (example_host endpoint True None)
      [Tick example_down, Scrape example_down]))"
    by (simp add: example_named_builds example_host_fields)
  moreover
  have "isl (snd (main (example_host endpoint False None)
        [Scrape example_down, Scrape example_down])) =
      list_ex (refused_build (auto_scrape
          \<lparr>web_listen_address = '':9141'', web_telemetry_path = ''/metrics'',
           auto_scrape = False\<rparr>))
        (if auto_scrape \<lparr>web_listen_address = '':9141'', web_telemetry_path = ''/metrics'',
              auto_scrape = False\<rparr> \<and>
            ScheduleAtFixedRate (example_host endpoint False None) = None
         then [Scrape example_down, Scrape example_down]
         else filter is_Scrape [Scrape example_down, Scrape example_down])"
    using t [of "example_host endpoint False None" "[]" "example_host endpoint False None"
        "[Scrape example_down, Scrape example_down]" ?bound "[]" "[]"]
      example_host_started [of endpoint False]
    by blast
  then have "\<not> isl (snd (main (example_host endpoint False None)
      [Scrape example_down, Scrape example_down]))"
    by (simp add: example_named_builds example_host_fields)
  moreover
  let ?f = "\<lparr>web_listen_address = '':9141'', web_telemetry_path = ''/metrics'',
      auto_scrape = False\<rparr>"
  have l: "flag_Parse ?bound = Inr ?f"
    "Handle ?bound [] (web_telemetry_path ?f) = None"
    "Handle ?bound [web_telemetry_path ?f] ''/'' = None"
    "ListenAndServe ?bound (web_listen_address ?f) =
       Some ''listen tcp :9141: bind: address already in use''"
    by (simp_all add: example_host_fields)
  have "snd (main ?bound []) = Inl (ExitStatus 1)"
    and "snd (main_main ?bound []) = Inl (ExitStatus 1)"
    using t [of "example_host endpoint False None" "[]" "example_host endpoint False None"
        "[]" ?bound "[]" "[]"] l
    by blast+
  ultimately show ?thesis
    using b0 example_down_response by simp
qed

text \<open>
  C6. Scheduling-mode dispatch: under auto-scrape \<open>Collect\<close> is \<open>UpdateMetrics\<close> on the
  stored state; it makes no outbound request, does not change the state and does not
  depend on the network. Without auto-scrape \<open>Collect\<close> runs \<open>RequestWeight\<close> first and
  then, if the process is still alive, \<open>UpdateMetrics\<close> on the state the probe left; it
  hands exactly the request it built to the transport. What is emitted is the state that
  is read: up = 0 alone when its \<open>isUp\<close> is 0, otherwise up = 1 and both weight gauges
  with its \<open>lastWeight\<close>. Under auto-scrape that is the stored state; without it, the
  state after the probe, so nothing when the request cannot be built, up = 0 after a
  transport error, and up = 1 with the parsed one-minute weight after a response.
\<close>

theorem collect_dispatch:
  "Collect True e c = (UpdateMetrics c, Inr c) \<and>
   Collect True e c = Collect True e' c \<and>
   probes (fst (Collect True e c)) = [] \<and>
   fst (Collect False e c) =
     fst (RequestWeight e c) @
       (case snd (RequestWeight e c) of Inl _ \<Rightarrow> [] | Inr c' \<Rightarrow> UpdateMetrics c') \<and>
   snd (Collect False e c) = snd (RequestWeight e c) \<and>
   probes (fst (Collect False e c)) =
     (case NewRequest e ''GET'' (binanceEndpoint c @ cheapRequest) of
        Inl _ \<Rightarrow> [] | Inr req \<Rightarrow> [req]) \<and>
   sent (fst (Collect True e c)) =
     (if isUp c = Finite 0 then [(fqName (up c), Finite 0)]
      else [(fqName (up c), Finite 1), (fqName (weightUsed c), lastWeight c),
            (fqName (weightUsedMinute c), lastWeight c)]) \<and>
   sent (fst (Collect False e c)) =
     (case snd (RequestWeight e c) of
        Inl _ \<Rightarrow> []
      | Inr c' \<Rightarrow>
          (if isUp c' = Finite 0 then [(fqName (up c'), Finite 0)]
           else [(fqName (up c'), Finite 1), (fqName (weightUsed c'), lastWeight c'),
                 (fqName (weightUsedMinute c'), lastWeight c')])) \<and>
   sent (fst (Collect False e c)) =
     (case NewRequest e ''GET'' (binanceEndpoint c @ cheapRequest) of
        Inl _ \<Rightarrow> []
      | Inr req \<Rightarrow>
          (case Do e req of
             Inl _ \<Rightarrow> [(fqName (up c), Finite 0)]
           | Inr resp \<Rightarrow>
               [(fqName (up c), Finite 1),
                (fqName (weightUsed c),
                 fst (ParseFloat e (Get (Header resp) ''x-mbx-used-weight-1m''))),
                (fqName (weightUsedMinute c),
                 fst (ParseFloat e (Get (Header resp) ''x-mbx-used-weight-1m'')))]))"
proof -
  have p: "probes (fst (Collect False e c)) =
     (case NewRequest e ''GET'' (binanceEndpoint c @ cheapRequest) of
        Inl _ \<Rightarrow> [] | Inr req \<Rightarrow> [req])"
  proof (cases "NewRequest e ''GET'' (binanceEndpoint c @ cheapRequest)")
    case (Inl err)
    then show ?thesis
      by (simp add: Collect_sync RequestWeight_fatal)
  next
    case (Inr req)
    then show ?thesis
      by (cases "Do e req")
        (simp_all add: Collect_sync RequestWeight_down RequestWeight_up probes_append
          probes_UpdateMetrics)
  qed
  have s1: "sent (fst (Collect False e c)) =
     (case snd (RequestWeight e c) of
        Inl _ \<Rightarrow> []
      | Inr c' \<Rightarrow>
          (if isUp c' = Finite 0 then [(fqName (up c'), Finite 0)]
           else [(fqName (up c'), Finite 1), (fqName (weightUsed c'), lastWeight c'),
                 (fqName (weightUsedMinute c'), lastWeight c')]))"
  proof (cases "NewRequest e ''GET'' (binanceEndpoint c @ cheapRequest)")
    case (Inl err)
    then show ?thesis
      by (simp add: Collect_sync RequestWeight_fatal)
  next
    case (Inr req)
    then show ?thesis
      by (cases "Do e req")
        (simp_all add: Collect_sync RequestWeight_down RequestWeight_up sent_append
          sent_UpdateMetrics)
  qed
  have s2: "sent (fst (Collect False e c)) =
     (case NewRequest e ''GET'' (binanceEndpoint c @ cheapRequest) of
        Inl _ \<Rightarrow> []
      | Inr req \<Rightarrow>
          (case Do e req of
             Inl _ \<Rightarrow> [(fqName (up c), Finite 0)]
           | Inr resp \<Rightarrow>
               [(fqName (up c), Finite 1),
                (fqName (weightUsed c),
                 fst (ParseFloat e (Get (Header resp) ''x-mbx-used-weight-1m''))),
                (fqName (weightUsedMinute c),
                 fst (ParseFloat e (Get (Header resp) ''x-mbx-used-weight-1m'')))]))"
  proof (cases "NewRequest e ''GET'' (binanceEndpoint c @ cheapRequest)")
    case (Inl err)
    then show ?thesis
      by (simp add: Collect_sync RequestWeight_fatal)
  next
    case (Inr req)
    then show ?thesis
      by (cases "Do e req")
        (simp_all add: Collect_sync RequestWeight_down RequestWeight_up sent_append
          sent_UpdateMetrics)
  qed
  have s0: "sent (fst (Collect True e c)) =
     (if isUp c = Finite 0 then [(fqName (up c), Finite 0)]
      else [(fqName (up c), Finite 1), (fqName (weightUsed c), lastWeight c),
            (fqName (weightUsedMinute c), lastWeight c)])"
    by (simp add: Collect_async sent_UpdateMetrics)
  have a: "Collect True e c = (UpdateMetrics c, Inr c)"
    "Collect True e c = Collect True e' c"
    "probes (fst (Collect True e c)) = []"
    by (simp_all add: Collect_async probes_UpdateMetrics)
  have b: "fst (Collect False e c) =
     fst (RequestWeight e c) @
       (case snd (RequestWeight e c) of Inl _ \<Rightarrow> [] | Inr c' \<Rightarrow> UpdateMetrics c')"
    "snd (Collect False e c) = snd (RequestWeight e c)"
    by (simp_all add: Collect_sync)
  from a b p s0 s1 [symmetric] s2 [symmetric] show ?thesis
    by (intro conjI) simp_all
qed

text \<open>
  C7. Initial state: the collector that \<^verbatim>\<open>NewCollector\<close> builds stores \<open>isUp = 0\<close> and
  \<open>lastWeight = 0\<close>; a scrape that reads it without probing (\<open>UpdateMetrics\<close>, \<open>Collect\<close>
  under auto-scrape, or the first scrape of a process that started under auto-scrape,
  before any tick) sends the up gauge with value 0 and no weight gauge.
\<close>

theorem fresh_collector_is_down:
  "isUp (NewCollector ep) = Finite 0 \<and> lastWeight (NewCollector ep) = Finite 0 \<and>
   sent (UpdateMetrics (NewCollector ep)) = [(''binance_up'', Finite 0)] \<and>
   sent (fst (Collect True e (NewCollector ep))) = [(''binance_up'', Finite 0)] \<and>
   sent (fst (main (h\<lparr>flag_Parse := Inr (f\<lparr>auto_scrape := True\<rparr>), Handle := \<lambda>_ _. None,
                      ListenAndServe := \<lambda>_. None\<rparr>) [Scrape e])) =
     [(''binance_up'', Finite 0)]"
proof -
  have "started (h\<lparr>flag_Parse := Inr (f\<lparr>auto_scrape := True\<rparr>), Handle := \<lambda>_ _. None,
      ListenAndServe := \<lambda>_. None\<rparr>) (f\<lparr>auto_scrape := True\<rparr>)"
    by (simp add: started_def)
  from fst_main_started [OF this, of "[Scrape e]"] show ?thesis
    by (simp add: NewCollector_names sent_UpdateMetrics Collect_async sent_append)
qed

text \<open>
  C8. Idempotence of the publish path: under auto-scrape a scrape leaves the collector as
  it was, so any number of scrapes with no probe between them send the same effects every
  time, namely those of \<open>UpdateMetrics\<close> on the unchanged state, whatever the network does
  meanwhile.
\<close>

theorem repeated_scrapes_identical:
  "serve True c (map Scrape es) = (concat (map (\<lambda>_. UpdateMetrics c) es), Inr c) \<and>
   map (\<lambda>e. sent (fst (Collect True e c))) es = replicate (length es) (sent (UpdateMetrics c)) \<and>
   snd (Collect True e c) = Inr c"
  by (simp add: serve_scrapes_async Collect_async map_replicate_const)
text \<open>
  C9, as stated, fails for a value that \<^verbatim>\<open>ParseFloat\<close> rejects as out of range: the
  error is discarded like any other, but the value that comes with it is an infinity, not
  0. A response carries \<^verbatim>\<open>x-mbx-used-weight-1m = 1e999\<close>; \<^verbatim>\<open>ParseFloat\<close> reports
  \<^verbatim>\<open>ErrRange\<close>, and both exporters send \<open>+Inf\<close> for the gauges read from that header.
\<close>

theorem out_of_range_header_not_zeroed:
  "snd (ParseFloat example_huge
     (Get (Header (example_response 200
        [(''X-Mbx-Used-Weight'', [''5'']), (''X-Mbx-Used-Weight-1m'', [''1e999''])]))
        ''x-mbx-used-weight-1m'')) = Some ErrRange \<and>
   sent (fst (Collect_main example_huge (NewCollector_main endpoint))) =
     [(''binance_up'', Finite 1), (''binance_weight_used'', Finite 5),
      (''binance_weight_used_1m'', PosInf)] \<and>
   sent (fst (Collect False example_huge (NewCollector endpoint))) =
     [(''binance_up'', Finite 1), (''binance_weight_used'', PosInf),
      (''binance_weight_used_1m'', PosInf)]"
proof -
  have b0: "NewRequest example_huge ''GET''
      (binanceEndpoint (NewCollector_main endpoint) @ cheapRequest_main) =
      Inr example_request_main"
    by (simp add: example_named_builds NewCollector_main_names)
  have b: "NewRequest example_huge ''GET''
      (binanceEndpoint (NewCollector endpoint) @ cheapRequest) = Inr example_request"
    by (simp add: example_named_builds NewCollector_names)
  show ?thesis
    by (simp add: sent_Hit_up [OF b0 example_huge_response]
        sent_Collect_sync_up [OF b example_huge_response] NewCollector_names
        NewCollector_main_names Get_legacy Get_minute example_response_def
        example_ParseFloat_env example_parses)
qed

text \<open>
  C9, amended. Let \<^verbatim>\<open>ParseFloat\<close> return 0 with every syntax error and report a syntax
  error on the empty string, as \<^verbatim>\<open>strconv\<close> does. Each exporter on its own: on a
  successful probe no parse error is surfaced, the scrape returns and sends up = 1; a
  gauge whose header is absent or malformed is 0; any other gauge is the value
  \<^verbatim>\<open>ParseFloat\<close> returned, which for an out-of-range number is an infinity. The stateless
  exporter reads each gauge from its own header, the caching exporter both from
  \<^verbatim>\<open>x-mbx-used-weight-1m\<close>.
\<close>

theorem unparsable_header_reads_zero:
  assumes "\<And>s. snd (ParseFloat e s) = Some ErrSyntax \<Longrightarrow> fst (ParseFloat e s) = Finite 0"
    and "snd (ParseFloat e []) = Some ErrSyntax"
  shows
  "(\<forall>req0 resp0.
      NewRequest e ''GET'' (binanceEndpoint c0 @ cheapRequest_main) = Inr req0 \<longrightarrow>
      Do e req0 = Inr resp0 \<longrightarrow>
      snd (Collect_main e c0) = Inr () \<and>
      sent (fst (Collect_main e c0)) =
        [(fqName (up c0), Finite 1),
         (fqName (weightUsed c0),
          if absent_or_malformed e (Header resp0) ''x-mbx-used-weight'' then Finite 0
          else fst (ParseFloat e (Get (Header resp0) ''x-mbx-used-weight''))),
         (fqName (weightUsedMinute c0),
          if absent_or_malformed e (Header resp0) ''x-mbx-used-weight-1m'' then Finite 0
          else fst (ParseFloat e (Get (Header resp0) ''x-mbx-used-weight-1m'')))]) \<and>
   (\<forall>req resp.
      NewRequest e ''GET'' (binanceEndpoint c @ cheapRequest) = Inr req \<longrightarrow>
      Do e req = Inr resp \<longrightarrow>
      \<not> isl (snd (Collect False e c)) \<and>
      sent (fst (Collect False e c)) =
        [(fqName (up c), Finite 1),
         (fqName (weightUsed c),
          if absent_or_malformed e (Header resp) ''x-mbx-used-weight-1m'' then Finite 0
          else fst (ParseFloat e (Get (Header resp) ''x-mbx-used-weight-1m''))),
         (fqName (weightUsedMinute c),
          if absent_or_malformed e (Header resp) ''x-mbx-used-weight-1m'' then Finite 0
          else fst (ParseFloat e (Get (Header resp) ''x-mbx-used-weight-1m'')))] \<and>
      (\<forall>e'. sent (fst (serve True c [Tick e, Scrape e'])) = sent (fst (Collect False e c))))"
proof (intro conjI allI impI)
  note z = absent_or_malformed_zero [OF assms]
  fix req0 resp0
  assume b: "NewRequest e ''GET'' (binanceEndpoint c0 @ cheapRequest_main) = Inr req0"
    and d: "Do e req0 = Inr resp0"
  show "snd (Collect_main e c0) = Inr ()"
    by (simp add: Collect_main_def Hit_up [OF b d])
  show "sent (fst (Collect_main e c0)) =
      [(fqName (up c0), Finite 1),
       (fqName (weightUsed c0),
        if absent_or_malformed e (Header resp0) ''x-mbx-used-weight'' then Finite 0
        else fst (ParseFloat e (Get (Header resp0) ''x-mbx-used-weight''))),
       (fqName (weightUsedMinute c0),
        if absent_or_malformed e (Header resp0) ''x-mbx-used-weight-1m'' then Finite 0
        else fst (ParseFloat e (Get (Header resp0) ''x-mbx-used-weight-1m'')))]"
    by (simp add: sent_Hit_up [OF b d] z)
next
  note z = absent_or_malformed_zero [OF assms]
  fix req resp
  assume b: "NewRequest e ''GET'' (binanceEndpoint c @ cheapRequest) = Inr req"
    and d: "Do e req = Inr resp"
  show "\<not> isl (snd (Collect False e c))"
    by (simp add: Collect_sync RequestWeight_up [OF b d])
  show "sent (fst (Collect False e c)) =
      [(fqName (up c), Finite 1),
       (fqName (weightUsed c),
        if absent_or_malformed e (Header resp) ''x-mbx-used-weight-1m'' then Finite 0
        else fst (ParseFloat e (Get (Header resp) ''x-mbx-used-weight-1m''))),
       (fqName (weightUsedMinute c),
        if absent_or_malformed e (Header resp) ''x-mbx-used-weight-1m'' then Finite 0
        else fst (ParseFloat e (Get (Header resp) ''x-mbx-used-weight-1m'')))]"
    by (simp add: sent_Collect_sync_up [OF b d] z)
  fix e'
  show "sent (fst (serve True c [Tick e, Scrape e'])) = sent (fst (Collect False e c))"
    by (simp only: sent_tick_scrape_up [OF b d] sent_Collect_sync_up [OF b d])
qed

theorem unparsable_header_reads_zero_witness:
  "snd (ParseFloat example_garbled []) = Some ErrSyntax \<and>
   Header (example_response 200 [(''X-Mbx-Used-Weight-1m'', [''abc''])])
     ''X-Mbx-Used-Weight'' = None \<and>
   Header (example_response 200 [(''X-Mbx-Used-Weight-1m'', [''abc''])])
     ''X-Mbx-Used-Weight-1m'' = Some [''abc''] \<and>
   ParseFloat example_garbled ''abc'' = (Finite 0, Some ErrSyntax) \<and>
   absent_or_malformed example_garbled
     (Header (example_response 200 [(''X-Mbx-Used-Weight-1m'', [''abc''])]))
     ''x-mbx-used-weight'' \<and>
   absent_or_malformed example_garbled
     (Header (example_response 200 [(''X-Mbx-Used-Weight-1m'', [''abc''])]))
     ''x-mbx-used-weight-1m'' \<and>
   snd (Collect_main example_garbled (NewCollector_main endpoint)) = Inr () \<and>
   sent (fst (Collect_main example_garbled (NewCollector_main endpoint))) =
     [(''binance_up'', Finite 1), (''binance_weight_used'', Finite 0),
      (''binance_weight_used_1m'', Finite 0)] \<and>
   sent (fst (Collect False example_garbled example_cached)) =
     [(''binance_up'', Finite 1), (''binance_weight_used'', Finite 0),
      (''binance_weight_used_1m'', Finite 0)] \<and>
   sent (fst (serve True example_cached [Tick example_garbled, Scrape example_down])) =
     [(''binance_up'', Finite 1), (''binance_weight_used'', Finite 0),
      (''binance_weight_used_1m'', Finite 0)]"
proof -
  let ?resp = "example_response 200 [(''X-Mbx-Used-Weight-1m'', [''abc''])]"
  have syn: "\<And>s. snd (ParseFloat example_garbled s) = Some ErrSyntax \<Longrightarrow>
      fst (ParseFloat example_garbled s) = Finite 0"
    by (simp add: example_garbled_fields example_syntax_zero)
  have emp: "snd (ParseFloat example_garbled []) = Some ErrSyntax"
    by (simp add: example_garbled_fields example_parses)
  have abc: "ParseFloat example_garbled ''abc'' = (Finite 0, Some ErrSyntax)"
    by (simp add: example_garbled_fields example_ParseFloat_def)
  have hd: "Header ?resp ''X-Mbx-Used-Weight'' = None"
    "Header ?resp ''X-Mbx-Used-Weight-1m'' = Some [''abc'']"
    by (simp_all add: example_response_def)
  have b0: "NewRequest example_garbled ''GET''
      (binanceEndpoint (NewCollector_main endpoint) @ cheapRequest_main) =
      Inr example_request_main"
    by (simp add: example_garbled_fields NewCollector_main_names)
  have b: "NewRequest example_garbled ''GET''
      (binanceEndpoint example_cached @ cheapRequest) = Inr example_request"
    by (simp add: example_garbled_fields example_cached_fields)
  have a: "absent_or_malformed example_garbled (Header ?resp) ''x-mbx-used-weight''"
    "absent_or_malformed example_garbled (Header ?resp) ''x-mbx-used-weight-1m''"
    using hd abc
    by (simp_all add: absent_or_malformed_def canonical_legacy_key Get_minute)
  note t = unparsable_header_reads_zero [OF syn emp, of "NewCollector_main endpoint"
      example_cached]
  have "snd (Collect_main example_garbled (NewCollector_main endpoint)) = Inr () \<and>
      sent (fst (Collect_main example_garbled (NewCollector_main endpoint))) =
        [(fqName (up (NewCollector_main endpoint)), Finite 1),
         (fqName (weightUsed (NewCollector_main endpoint)),
          if absent_or_malformed example_garbled (Header ?resp) ''x-mbx-used-weight''
          then Finite 0
          else fst (ParseFloat example_garbled (Get (Header ?resp) ''x-mbx-used-weight''))),
         (fqName (weightUsedMinute (NewCollector_main endpoint)),
          if absent_or_malformed example_garbled (Header ?resp) ''x-mbx-used-weight-1m''
          then Finite 0
          else fst (ParseFloat example_garbled
            (Get (Header ?resp) ''x-mbx-used-weight-1m'')))]"
    using t b0 example_garbled_response [of example_request_main] by blast
  moreover
  have "sent (fst (Collect False example_garbled example_cached)) =
        [(fqName (up example_cached), Finite 1),
         (fqName (weightUsed example_cached),
          if absent_or_malformed example_garbled (Header ?resp) ''x-mbx-used-weight-1m''
          then Finite 0
          else fst (ParseFloat example_garbled
            (Get (Header ?resp) ''x-mbx-used-weight-1m''))),
         (fqName (weightUsedMinute example_cached),
          if absent_or_malformed example_garbled (Header ?resp) ''x-mbx-used-weight-1m''
          then Finite 0
          else fst (ParseFloat example_garbled
            (Get (Header ?resp) ''x-mbx-used-weight-1m'')))] \<and>
      sent (fst (serve True example_cached [Tick example_garbled, Scrape example_down])) =
        sent (fst (Collect False example_garbled example_cached))"
    using t b example_garbled_response [of example_request] by blast
  ultimately show ?thesis
    using emp hd abc a
    by (simp only: example_cached_fields NewCollector_main_names if_True simp_thms)
qed

text \<open>
  C10. In the caching exporter, whenever the stored state is reachable the scrape sends
  \<open>weight_used\<close> and \<open>weight_used_1m\<close> with the same value, the stored \<open>lastWeight\<close>. After
  a probe that field is the old value (transport error) or the value parsed from
  \<^verbatim>\<open>x-mbx-used-weight-1m\<close> (response delivered). The legacy header \<^verbatim>\<open>x-mbx-used-weight\<close> is
  never read: setting or removing it in whatever the transport delivers changes nothing
  of the probe.
\<close>

theorem cached_gauges_share_lastWeight:
  assumes "isUp c \<noteq> Finite 0"
  shows "sent (UpdateMetrics c) =
           [(fqName (up c), Finite 1), (fqName (weightUsed c), lastWeight c),
            (fqName (weightUsedMinute c), lastWeight c)] \<and>
         map_sum id lastWeight (snd (RequestWeight e c)) =
           (case NewRequest e ''GET'' (binanceEndpoint c @ cheapRequest) of
              Inl _ \<Rightarrow> Inl (ExitStatus 1)
            | Inr req \<Rightarrow>
                (case Do e req of
                   Inl _ \<Rightarrow> Inr (lastWeight c)
                 | Inr resp \<Rightarrow>
                     Inr (fst (ParseFloat e (Get (Header resp) ''x-mbx-used-weight-1m''))))) \<and>
         RequestWeight
           (e\<lparr>Do := \<lambda>r. map_sum id
              (\<lambda>x. x\<lparr>Header := (Header x)(''X-Mbx-Used-Weight'' := v)\<rparr>) (Do e r)\<rparr>) c =
           RequestWeight e c"
  using assms
  by (simp add: sent_UpdateMetrics stored_weight_after_probe legacy_header_never_read)

theorem cached_gauges_share_lastWeight_witness:
  "isUp example_cached \<noteq> Finite 0 \<and>
   sent (UpdateMetrics example_cached) =
     [(''binance_up'', Finite 1), (''binance_weight_used'', Finite 42),
      (''binance_weight_used_1m'', Finite 42)] \<and>
   map_sum id lastWeight (snd (RequestWeight example_up example_cached)) = Inr (Finite 7) \<and>
   RequestWeight
     (example_up\<lparr>Do := \<lambda>r. map_sum id
        (\<lambda>x. x\<lparr>Header := (Header x)(''X-Mbx-Used-Weight'' := Some [''42''])\<rparr>)
        (Do example_up r)\<rparr>) example_cached =
     RequestWeight example_up example_cached"
proof -
  have u: "isUp example_cached \<noteq> Finite 0"
    by (simp add: example_cached_fields)
  from cached_gauges_share_lastWeight [OF u, of example_up "Some [''42'']"] u
  show ?thesis
    by (simp add: example_cached_fields example_named_builds example_up_response Get_minute
        example_up_headers example_ParseFloat_env example_parses)
qed

end
